theory Spec2Isabelle
  imports Complex_Main "HOL-Library.AList"
begin

section \<open>Python values and exceptions\<close>

text \<open>
  Resource documents are the untyped values the Kubernetes client returns
  (\<^verbatim>\<open>Dict[str, Any]\<close>): JSON data, plus tuples, which the typed create helpers of
  \<^verbatim>\<open>openkruise.agents\<close> can produce. A dict is an association list with string keys,
  looked up with \<^const>\<open>map_of\<close>. Floats do not occur in the documents that the code inspects.
\<close>

datatype py =
    PyNone
  | PyBool bool
  | PyInt int
  | PyStr string
  | PyList "py list"
  | PyTuple "py list"
  | PyDict "(string \<times> py) list"

text \<open>
  Exceptions are values. \<open>ApiException\<close> is the transport's error
  (\<^verbatim>\<open>kubernetes.client.rest.ApiException\<close>) with its \<^verbatim>\<open>status\<close> (an int, or
  \<^verbatim>\<open>None\<close>), \<^verbatim>\<open>reason\<close> and \<^verbatim>\<open>body\<close>; \<open>TransportFailure\<close> stands for
  every other exception the transport can raise (connection errors and the like).
  The remaining constructors are the exceptions of \<^verbatim>\<open>exceptions.py\<close> and the
  built-in ones that the modelled code can raise.
\<close>

datatype error =
    ApiException "int option" string string
  | TransportFailure string
  | SandboxNotFoundException string
  | SandboxSetNotFoundException string
  | TimeoutError string
  | KeyError string
  | TypeError
  | AttributeError
  | OverflowError

text \<open>\<^verbatim>\<open>a or b\<close> for an optional string \<open>a\<close>: \<^verbatim>\<open>None\<close> and \<^verbatim>\<open>""\<close> are falsy.\<close>

definition py_or :: "string option \<Rightarrow> string \<Rightarrow> string" where
  "py_or a b = (case a of None \<Rightarrow> b | Some s \<Rightarrow> if s = [] then b else s)"

text \<open>\<^verbatim>\<open>key in s\<close> for two strings is the substring test.\<close>

fun startswith :: "string \<Rightarrow> string \<Rightarrow> bool" where
  "startswith s [] = True"
| "startswith [] (p # ps) = False"
| "startswith (c # s) (p # ps) = (c = p \<and> startswith s ps)"

fun str_contains :: "string \<Rightarrow> string \<Rightarrow> bool" where
  "str_contains [] key = (key = [])"
| "str_contains (c # s) key = (startswith (c # s) key \<or> str_contains s key)"

text \<open>
  \<^verbatim>\<open>key in v\<close> with a string key: key membership for a dict, substring for a string,
  element membership for a list or tuple, and \<^verbatim>\<open>TypeError\<close> for a value that is not
  iterable.
\<close>

fun py_in :: "string \<Rightarrow> py \<Rightarrow> error + bool" where
  "py_in key (PyDict kvs) = Inr (map_of kvs key \<noteq> None)"
| "py_in key (PyStr s) = Inr (str_contains s key)"
| "py_in key (PyList xs) = Inr (List.member xs (PyStr key))"
| "py_in key (PyTuple xs) = Inr (List.member xs (PyStr key))"
| "py_in key PyNone = Inl TypeError"
| "py_in key (PyBool b) = Inl TypeError"
| "py_in key (PyInt i) = Inl TypeError"

text \<open>
  \<^verbatim>\<open>v[key]\<close> with a string key: \<^verbatim>\<open>KeyError\<close> for a dict without the key,
  \<^verbatim>\<open>TypeError\<close> for every value that is not a dict.
\<close>

fun py_getitem :: "py \<Rightarrow> string \<Rightarrow> error + py" where
  "py_getitem (PyDict kvs) key =
     (case map_of kvs key of None \<Rightarrow> Inl (KeyError key) | Some v \<Rightarrow> Inr v)"
| "py_getitem v key = Inl TypeError"

text \<open>
  \<^verbatim>\<open>v.get(key, default)\<close>: only a dict has the method; \<^verbatim>\<open>v.get(key)\<close> is
  \<^verbatim>\<open>v.get(key, None)\<close>.
\<close>

fun py_get :: "py \<Rightarrow> string \<Rightarrow> py \<Rightarrow> error + py" where
  "py_get (PyDict kvs) key dflt =
     Inr (case map_of kvs key of None \<Rightarrow> dflt | Some v \<Rightarrow> v)"
| "py_get v key dflt = Inl AttributeError"

text \<open>
  \<^verbatim>\<open>for x in v\<close>: the elements of a list or tuple, the keys of a dict, the characters
  of a string; \<^verbatim>\<open>TypeError\<close> otherwise.
\<close>

fun py_iter :: "py \<Rightarrow> error + py list" where
  "py_iter (PyList xs) = Inr xs"
| "py_iter (PyTuple xs) = Inr xs"
| "py_iter (PyDict kvs) = Inr (map (\<lambda>kv. PyStr (fst kv)) kvs)"
| "py_iter (PyStr s) = Inr (map (\<lambda>c. PyStr [c]) s)"
| "py_iter v = Inl TypeError"

section \<open>The transport: \<^verbatim>\<open>CustomObjectsApi\<close> and \<^verbatim>\<open>watch.Watch\<close>\<close>

text \<open>
  The clients call the generic Kubernetes \<^verbatim>\<open>CustomObjectsApi\<close> with keyword
  arguments. A call is recorded as the operation and its keyword arguments; an argument that
  is absent or \<^verbatim>\<open>None\<close> is \<open>None\<close>. The body of a call is a document, or the
  \<^verbatim>\<open>V1DeleteOptions\<close> object of \<^verbatim>\<open>delete_resource\<close> with its
  \<^verbatim>\<open>grace_period_seconds\<close>.
\<close>

datatype api_method =
    create_namespaced_custom_object
  | get_namespaced_custom_object
  | patch_namespaced_custom_object
  | patch_namespaced_custom_object_status
  | delete_namespaced_custom_object
  | list_namespaced_custom_object
  | delete_collection_namespaced_custom_object

datatype call_body = Document py | V1DeleteOptions "int option"

record api_call =
  operation :: api_method
  kw_group :: string
  kw_version :: string
  kw_namespace :: string
  kw_plural :: string
  kw_name :: "string option"
  kw_body :: "call_body option"
  kw_label_selector :: "string option"
  kw_field_selector :: "string option"
  kw_timeout_seconds :: "int option"
  kw_content_type :: "string option"

text \<open>
  A watch event is the dict \<^verbatim>\<open>{'type': ..., 'object': ...}\<close> that
  \<^verbatim>\<open>Watch.stream\<close> yields. An event stream is the finite sequence of events the
  server delivers, followed by the way it ends: the server closes the stream
  (\<open>Closed\<close>), the transport raises (\<open>Raised\<close>), or no further event ever arrives and
  the consumer waits forever (\<open>Blocked\<close>).
\<close>

record watch_event =
  type :: string
  object :: py

datatype stream_end = Closed | Raised error | Blocked

type_synonym event_stream = "watch_event list \<times> stream_end"

section \<open>\<^verbatim>\<open>agents_api_client.base_client\<close>\<close>

text \<open>
  \<^verbatim>\<open>BaseCustomResourceClient\<close>: the resource coordinate and the transport handle
  \<^verbatim>\<open>self.custom_objects_api\<close>, a function from the call to the document it returns
  or the exception it raises.
\<close>

record client =
  api_group :: string
  api_version :: string
  plural :: string
  namespace :: string
  custom_objects_api :: "api_call \<Rightarrow> error + py"

text \<open>
  The call that an operation of the client \<open>self\<close> makes in the namespace \<open>ns\<close>: the
  coordinate of the client and the remaining keyword arguments.
\<close>

abbreviation namespaced ::
  "api_method \<Rightarrow> client \<Rightarrow> string \<Rightarrow> string option \<Rightarrow> call_body option \<Rightarrow> string option \<Rightarrow>
   string option \<Rightarrow> int option \<Rightarrow> string option \<Rightarrow> api_call" where
  "namespaced m self ns name body label_selector field_selector timeout_seconds content_type \<equiv>
     \<lparr>operation = m, kw_group = api_group self, kw_version = api_version self,
      kw_namespace = ns, kw_plural = plural self, kw_name = name, kw_body = body,
      kw_label_selector = label_selector, kw_field_selector = field_selector,
      kw_timeout_seconds = timeout_seconds, kw_content_type = content_type\<rparr>"

definition create_resource :: "client \<Rightarrow> py \<Rightarrow> string option \<Rightarrow> error + py" where
  "create_resource self body namespace' =
     (let ns = py_or namespace' (client.namespace self) in
      custom_objects_api self
        \<lparr>operation = create_namespaced_custom_object,
         kw_group = api_group self, kw_version = api_version self,
         kw_namespace = ns, kw_plural = plural self,
         kw_name = None, kw_body = Some (Document body),
         kw_label_selector = None, kw_field_selector = None,
         kw_timeout_seconds = None, kw_content_type = None\<rparr>)"

definition get_resource :: "client \<Rightarrow> string \<Rightarrow> string option \<Rightarrow> error + py" where
  "get_resource self name namespace' =
     (let ns = py_or namespace' (client.namespace self) in
      custom_objects_api self
        \<lparr>operation = get_namespaced_custom_object,
         kw_group = api_group self, kw_version = api_version self,
         kw_namespace = ns, kw_plural = plural self,
         kw_name = Some name, kw_body = None,
         kw_label_selector = None, kw_field_selector = None,
         kw_timeout_seconds = None, kw_content_type = None\<rparr>)"

definition update_resource ::
  "client \<Rightarrow> string \<Rightarrow> py \<Rightarrow> string option \<Rightarrow> error + py" where
  "update_resource self name body namespace' =
     (let ns = py_or namespace' (client.namespace self) in
      custom_objects_api self
        \<lparr>operation = patch_namespaced_custom_object,
         kw_group = api_group self, kw_version = api_version self,
         kw_namespace = ns, kw_plural = plural self,
         kw_name = Some name, kw_body = Some (Document body),
         kw_label_selector = None, kw_field_selector = None,
         kw_timeout_seconds = None, kw_content_type = None\<rparr>)"

definition update_resource_status ::
  "client \<Rightarrow> string \<Rightarrow> py \<Rightarrow> string option \<Rightarrow> error + py" where
  "update_resource_status self name body namespace' =
     (let ns = py_or namespace' (client.namespace self) in
      custom_objects_api self
        \<lparr>operation = patch_namespaced_custom_object_status,
         kw_group = api_group self, kw_version = api_version self,
         kw_namespace = ns, kw_plural = plural self,
         kw_name = Some name, kw_body = Some (Document body),
         kw_label_selector = None, kw_field_selector = None,
         kw_timeout_seconds = None, kw_content_type = None\<rparr>)"

definition delete_resource ::
  "client \<Rightarrow> string \<Rightarrow> string option \<Rightarrow> int option \<Rightarrow> error + py" where
  "delete_resource self name namespace' grace_period_seconds =
     (let ns = py_or namespace' (client.namespace self);
          body = V1DeleteOptions grace_period_seconds in
      custom_objects_api self
        \<lparr>operation = delete_namespaced_custom_object,
         kw_group = api_group self, kw_version = api_version self,
         kw_namespace = ns, kw_plural = plural self,
         kw_name = Some name, kw_body = Some body,
         kw_label_selector = None, kw_field_selector = None,
         kw_timeout_seconds = None, kw_content_type = None\<rparr>)"

definition list_resources ::
  "client \<Rightarrow> string option \<Rightarrow> string option \<Rightarrow> string option \<Rightarrow> error + py" where
  "list_resources self namespace' label_selector field_selector =
     (let ns = py_or namespace' (client.namespace self) in
      custom_objects_api self
        \<lparr>operation = list_namespaced_custom_object,
         kw_group = api_group self, kw_version = api_version self,
         kw_namespace = ns, kw_plural = plural self,
         kw_name = None, kw_body = None,
         kw_label_selector = label_selector, kw_field_selector = field_selector,
         kw_timeout_seconds = None, kw_content_type = None\<rparr>)"

definition patch_resource ::
  "client \<Rightarrow> string \<Rightarrow> py \<Rightarrow> string option \<Rightarrow> string \<Rightarrow> error + py" where
  "patch_resource self name body namespace' content_type =
     (let ns = py_or namespace' (client.namespace self) in
      custom_objects_api self
        \<lparr>operation = patch_namespaced_custom_object,
         kw_group = api_group self, kw_version = api_version self,
         kw_namespace = ns, kw_plural = plural self,
         kw_name = Some name, kw_body = Some (Document body),
         kw_label_selector = None, kw_field_selector = None,
         kw_timeout_seconds = None, kw_content_type = Some content_type\<rparr>)"

definition delete_collection_resources ::
  "client \<Rightarrow> string option \<Rightarrow> string option \<Rightarrow> string option \<Rightarrow> error + py" where
  "delete_collection_resources self namespace' label_selector field_selector =
     (let ns = py_or namespace' (client.namespace self) in
      custom_objects_api self
        \<lparr>operation = delete_collection_namespaced_custom_object,
         kw_group = api_group self, kw_version = api_version self,
         kw_namespace = ns, kw_plural = plural self,
         kw_name = None, kw_body = None,
         kw_label_selector = label_selector, kw_field_selector = field_selector,
         kw_timeout_seconds = None, kw_content_type = None\<rparr>)"

text \<open>
  \<^verbatim>\<open>watch_resources\<close> is a generator over \<^verbatim>\<open>watcher.stream(...)\<close>. The underlying
  stream is the parameter \<open>stream\<close>, a function of the list call that is watched. The
  generator's output is again an event stream: the events it yields and the way it ends.
  The loop yields every event and breaks after one whose type is \<^verbatim>\<open>"ERROR"\<close>; the
  generator then ends normally.
\<close>

fun watch_loop :: "watch_event list \<Rightarrow> stream_end \<Rightarrow> event_stream" where
  "watch_loop [] fin = ([], fin)"
| "watch_loop (event # rest) fin =
     (if type event = ''ERROR'' then ([event], Closed)
      else (event # fst (watch_loop rest fin), snd (watch_loop rest fin)))"

definition watch_resources ::
  "(api_call \<Rightarrow> event_stream) \<Rightarrow> client \<Rightarrow> string option \<Rightarrow> string option \<Rightarrow>
   string option \<Rightarrow> int option \<Rightarrow> event_stream" where
  "watch_resources stream self namespace' label_selector field_selector timeout_seconds =
     (let ns = py_or namespace' (client.namespace self);
          underlying = stream
            \<lparr>operation = list_namespaced_custom_object,
             kw_group = api_group self, kw_version = api_version self,
             kw_namespace = ns, kw_plural = plural self,
             kw_name = None, kw_body = None,
             kw_label_selector = label_selector, kw_field_selector = field_selector,
             kw_timeout_seconds = timeout_seconds, kw_content_type = None\<rparr>
      in watch_loop (fst underlying) (snd underlying))"

text \<open>
  The inner loop of \<^verbatim>\<open>wait_for_resource_condition\<close> over
  \<^verbatim>\<open>resource['status']['conditions']\<close>: \<open>Inr True\<close> when the \<^verbatim>\<open>return\<close> is reached.
  The comparisons are with strings, so they hold exactly for equal \<open>PyStr\<close> values.
\<close>

fun conditions_loop :: "py list \<Rightarrow> string \<Rightarrow> string \<Rightarrow> error + bool" where
  "conditions_loop [] condition_type condition_status = Inr False"
| "conditions_loop (condition # rest) condition_type condition_status =
     (case py_get condition ''type'' PyNone of
        Inl e \<Rightarrow> Inl e
      | Inr t \<Rightarrow>
          if t = PyStr condition_type then
            (case py_get condition ''status'' PyNone of
               Inl e \<Rightarrow> Inl e
             | Inr s \<Rightarrow>
                 if s = PyStr condition_status then Inr True
                 else conditions_loop rest condition_type condition_status)
          else conditions_loop rest condition_type condition_status)"

text \<open>
  The test made on one event's object:
  \<^verbatim>\<open>if 'status' in resource and 'conditions' in resource['status']: for condition in ...\<close>
\<close>

definition condition_met :: "py \<Rightarrow> string \<Rightarrow> string \<Rightarrow> error + bool" where
  "condition_met resource condition_type condition_status =
     (case py_in ''status'' resource of
        Inl e \<Rightarrow> Inl e
      | Inr False \<Rightarrow> Inr False
      | Inr True \<Rightarrow>
          (case py_getitem resource ''status'' of
             Inl e \<Rightarrow> Inl e
           | Inr st \<Rightarrow>
               (case py_in ''conditions'' st of
                  Inl e \<Rightarrow> Inl e
                | Inr False \<Rightarrow> Inr False
                | Inr True \<Rightarrow>
                    (case py_getitem st ''conditions'' of
                       Inl e \<Rightarrow> Inl e
                     | Inr conditions \<Rightarrow>
                         (case py_iter conditions of
                            Inl e \<Rightarrow> Inl e
                          | Inr items \<Rightarrow>
                              conditions_loop items condition_type condition_status)))))"

text \<open>
  \<^verbatim>\<open>end_time = time.time() + timeout\<close> adds an int to a float. A finite float is the real
  number it denotes; the result of an addition can also be an infinity. The int is first
  converted to a float, which raises \<^verbatim>\<open>OverflowError\<close> when it rounds to an infinity,
  that is when its magnitude is at least \<open>2 ^ 1024 - 2 ^ 970\<close>; the sum of the two floats
  is then rounded, to an infinity from the same magnitude on, and without an exception.
  The parameter \<open>fl\<close> is the runtime's rounding of a real number of smaller magnitude to
  the nearest double.
\<close>

datatype pyfloat = Finite real | PosInf | NegInf

definition int_to_float :: "(real \<Rightarrow> real) \<Rightarrow> int \<Rightarrow> error + real" where
  "int_to_float fl n =
     (if \<bar>n\<bar> \<ge> 2 ^ 1024 - 2 ^ 970 then Inl OverflowError else Inr (fl (real_of_int n)))"

definition float_add :: "(real \<Rightarrow> real) \<Rightarrow> real \<Rightarrow> real \<Rightarrow> pyfloat" where
  "float_add fl a b =
     (if a + b \<ge> 2 ^ 1024 - 2 ^ 970 then PosInf
      else if a + b \<le> - (2 ^ 1024 - 2 ^ 970) then NegInf
      else Finite (fl (a + b)))"

text \<open>\<^verbatim>\<open>a > b\<close> for a finite float \<open>a\<close>.\<close>

fun float_gt :: "real \<Rightarrow> pyfloat \<Rightarrow> bool" where
  "float_gt a (Finite b) = (a > b)"
| "float_gt a PosInf = False"
| "float_gt a NegInf = True"

text \<open>
  The outer loop. \<open>clock 0\<close> is the value of \<^verbatim>\<open>time.time()\<close> at the start of the
  call, and \<open>clock k\<close> its value when the \<open>k\<close>-th event that the loop receives has been
  examined; the loop reads it only after an event without the condition. The result is
  \<open>None\<close> when the call never returns, \<open>Some (Inl e)\<close> when it raises \<open>e\<close> and
  \<open>Some (Inr resource)\<close> when it returns.
\<close>

fun wait_loop ::
  "(nat \<Rightarrow> real) \<Rightarrow> nat \<Rightarrow> pyfloat \<Rightarrow> string \<Rightarrow> string \<Rightarrow> string \<Rightarrow> string \<Rightarrow>
   watch_event list \<Rightarrow> stream_end \<Rightarrow> (error + py) option" where
  "wait_loop clock k end_time name ns condition_type condition_status [] fin =
     (case fin of
        Closed \<Rightarrow>
          Some (Inl (TimeoutError
            (''Unable to find resource '' @ name @ '' in namespace '' @ ns)))
      | Raised e \<Rightarrow> Some (Inl e)
      | Blocked \<Rightarrow> None)"
| "wait_loop clock k end_time name ns condition_type condition_status (event # rest) fin =
     (let resource = object event in
      case condition_met resource condition_type condition_status of
        Inl e \<Rightarrow> Some (Inl e)
      | Inr True \<Rightarrow> Some (Inr resource)
      | Inr False \<Rightarrow>
          if float_gt (clock k) end_time then
            Some (Inl (TimeoutError
              (''Timeout waiting for condition '' @ condition_type @ ''='' @ condition_status
               @ '' for resource '' @ name @ '' in namespace '' @ ns)))
          else wait_loop clock (Suc k) end_time name ns condition_type condition_status
                 rest fin)"

definition wait_for_resource_condition ::
  "(real \<Rightarrow> real) \<Rightarrow> (api_call \<Rightarrow> event_stream) \<Rightarrow> (nat \<Rightarrow> real) \<Rightarrow> client \<Rightarrow> string \<Rightarrow>
   string \<Rightarrow> string \<Rightarrow> int \<Rightarrow> string option \<Rightarrow> (error + py) option" where
  "wait_for_resource_condition fl stream clock self name condition_type condition_status
     timeout namespace' =
     (let ns = py_or namespace' (client.namespace self) in
      case int_to_float fl timeout of
        Inl e \<Rightarrow> Some (Inl e)
      | Inr t \<Rightarrow>
          (let end_time = float_add fl (clock 0) t;
               events = watch_resources stream self (Some ns) None
                          (Some (''metadata.name='' @ name)) None
           in wait_loop clock 1 end_time name ns condition_type condition_status
                (fst events) (snd events)))"

section \<open>\<^verbatim>\<open>agents_api_client.sandbox_client\<close> and \<^verbatim>\<open>agents_api_client.sandboxset_client\<close>\<close>

text \<open>
  \<^verbatim>\<open>except ApiException as e: if e.status == 404: raise ...NotFoundException(...); raise\<close>.
  The message is the f-string \<^verbatim>\<open>f"Sandbox '{name}' not found in namespace '{ns}'"\<close>;
  \<open>CHR 0x27\<close> is the apostrophe.
\<close>

definition get_sandbox :: "client \<Rightarrow> string \<Rightarrow> string option \<Rightarrow> error + py" where
  "get_sandbox self name namespace' =
     (let ns = py_or namespace' (client.namespace self) in
      case get_resource self name namespace' of
        Inr resource \<Rightarrow> Inr resource
      | Inl (ApiException status reason body) \<Rightarrow>
          if status = Some 404 then
            Inl (SandboxNotFoundException
              (''Sandbox '' @ [CHR 0x27] @ name @ [CHR 0x27] @ '' not found in namespace ''
               @ [CHR 0x27] @ ns @ [CHR 0x27]))
          else Inl (ApiException status reason body)
      | Inl e \<Rightarrow> Inl e)"

definition get_sandboxset :: "client \<Rightarrow> string \<Rightarrow> string option \<Rightarrow> error + py" where
  "get_sandboxset self name namespace' =
     (let ns = py_or namespace' (client.namespace self) in
      case get_resource self name namespace' of
        Inr resource \<Rightarrow> Inr resource
      | Inl (ApiException status reason body) \<Rightarrow>
          if status = Some 404 then
            Inl (SandboxSetNotFoundException
              (''SandboxSet '' @ [CHR 0x27] @ name @ [CHR 0x27]
               @ '' not found in namespace '' @ [CHR 0x27] @ ns @ [CHR 0x27]))
          else Inl (ApiException status reason body)
      | Inl e \<Rightarrow> Inl e)"

definition scale_sandboxset :: "client \<Rightarrow> string \<Rightarrow> int \<Rightarrow> string option \<Rightarrow> error + py" where
  "scale_sandboxset self name replicas namespace' =
     (let ns = py_or namespace' (client.namespace self);
          patch_body = PyDict [(''spec'', PyDict [(''replicas'', PyInt replicas)])] in
      custom_objects_api self
        \<lparr>operation = patch_namespaced_custom_object,
         kw_group = api_group self, kw_version = api_version self,
         kw_namespace = ns, kw_plural = plural self,
         kw_name = Some name, kw_body = Some (Document patch_body),
         kw_label_selector = None, kw_field_selector = None,
         kw_timeout_seconds = None, kw_content_type = None\<rparr>)"

definition get_sandboxset_replicas :: "client \<Rightarrow> string \<Rightarrow> string option \<Rightarrow> error + py" where
  "get_sandboxset_replicas self name namespace' =
     (case get_sandboxset self name namespace' of
        Inl e \<Rightarrow> Inl e
      | Inr sandboxset \<Rightarrow>
          (case py_get sandboxset ''spec'' (PyDict []) of
             Inl e \<Rightarrow> Inl e
           | Inr spec \<Rightarrow> py_get spec ''replicas'' (PyInt 0)))"

section \<open>\<^verbatim>\<open>openkruise.agents\<close>: the typed clients\<close>

text \<open>
  Modelled from the spec: the pydantic models \<^verbatim>\<open>Sandbox\<close>, \<^verbatim>\<open>SandboxSet\<close> and
  \<^verbatim>\<open>SandboxClaim\<close> of \<^verbatim>\<open>openkruise/agents/models\<close> are not among the sources. A
  model instance is the association of its set fields (by alias) with their values, with
  nested models already dumped; assigning an attribute stores the value as it is (pydantic
  does not validate an assignment unless the model asks for it) and marks the field as set;
  \<^verbatim>\<open>model_dump(exclude_unset=True, by_alias=True)\<close> is the dict of the set fields.
\<close>

type_synonym model = "(string \<times> py) list"

definition setattr :: "model \<Rightarrow> string \<Rightarrow> py \<Rightarrow> model" where
  "setattr m field v = AList.update field v m"

definition model_dump :: "model \<Rightarrow> py" where
  "model_dump m = PyDict m"

text \<open>
  The three clients have the same attributes; the plural and namespace attributes carry
  the prefix \<open>k_\<close> here, as the names without it are those of the base client above.
\<close>

record kruise_client =
  group :: string
  version :: string
  k_plural :: string
  k_namespace :: string
  kind :: string
  api :: "api_call \<Rightarrow> error + py"

text \<open>The three \<^verbatim>\<open>__init__\<close> methods; \<open>api'\<close> is the \<^verbatim>\<open>client.CustomObjectsApi()\<close> handle.\<close>

definition SandboxClient :: "string \<Rightarrow> (api_call \<Rightarrow> error + py) \<Rightarrow> kruise_client" where
  "SandboxClient namespace' api' =
     \<lparr>group = ''agents.kruise.io'', version = ''v1alpha1'', k_plural = ''sandboxes'',
      k_namespace = namespace', kind = ''Sandbox'', api = api'\<rparr>"

definition SandboxSetClient :: "string \<Rightarrow> (api_call \<Rightarrow> error + py) \<Rightarrow> kruise_client" where
  "SandboxSetClient namespace' api' =
     \<lparr>group = ''agents.kruise.io'', version = ''v1alpha1'', k_plural = ''sandboxsets'',
      k_namespace = namespace', kind = ''SandboxSet'', api = api'\<rparr>"

definition SandboxClaimClient :: "string \<Rightarrow> (api_call \<Rightarrow> error + py) \<Rightarrow> kruise_client" where
  "SandboxClaimClient namespace' api' =
     \<lparr>group = ''agents.kruise.io'', version = ''v1alpha1'', k_plural = ''sandboxclaims'',
      k_namespace = namespace', kind = ''SandboxClaim'', api = api'\<rparr>"

text \<open>
  The body that a create helper sends, and the helper itself. In \<^verbatim>\<open>create_sandbox\<close>
  the two assignments store strings. In \<^verbatim>\<open>create_sandboxset\<close> and
  \<^verbatim>\<open>create_sandboxclaim\<close> each assignment ends in a comma, so the value stored is a
  tuple of one string.
\<close>

definition create_call :: "kruise_client \<Rightarrow> py \<Rightarrow> api_call" where
  "create_call self body =
     \<lparr>operation = create_namespaced_custom_object,
      kw_group = group self, kw_version = version self,
      kw_namespace = k_namespace self, kw_plural = k_plural self,
      kw_name = None, kw_body = Some (Document body),
      kw_label_selector = None, kw_field_selector = None,
      kw_timeout_seconds = None, kw_content_type = None\<rparr>"

definition create_sandbox_body :: "kruise_client \<Rightarrow> model \<Rightarrow> py" where
  "create_sandbox_body self sandbox =
     (let sandbox1 = setattr sandbox ''apiVersion''
                       (PyStr (group self @ ''/'' @ version self));
          sandbox2 = setattr sandbox1 ''kind'' (PyStr (kind self))
      in model_dump sandbox2)"

definition create_sandbox :: "kruise_client \<Rightarrow> model \<Rightarrow> error + py" where
  "create_sandbox self sandbox = api self (create_call self (create_sandbox_body self sandbox))"

definition create_sandboxset_body :: "kruise_client \<Rightarrow> model \<Rightarrow> py" where
  "create_sandboxset_body self sandboxset =
     (let sandboxset1 = setattr sandboxset ''apiVersion''
                          (PyTuple [PyStr (group self @ ''/'' @ version self)]);
          sandboxset2 = setattr sandboxset1 ''kind'' (PyTuple [PyStr (kind self)])
      in model_dump sandboxset2)"

definition create_sandboxset :: "kruise_client \<Rightarrow> model \<Rightarrow> error + py" where
  "create_sandboxset self sandboxset =
     api self (create_call self (create_sandboxset_body self sandboxset))"

definition create_sandboxclaim_body :: "kruise_client \<Rightarrow> model \<Rightarrow> py" where
  "create_sandboxclaim_body self sandbox_claim =
     (let sandbox_claim1 = setattr sandbox_claim ''apiVersion''
                             (PyTuple [PyStr (group self @ ''/'' @ version self)]);
          sandbox_claim2 = setattr sandbox_claim1 ''kind'' (PyTuple [PyStr (kind self)])
      in model_dump sandbox_claim2)"

definition create_sandboxclaim :: "kruise_client \<Rightarrow> model \<Rightarrow> error + py" where
  "create_sandboxclaim self sandbox_claim =
     api self (create_call self (create_sandboxclaim_body self sandbox_claim))"

section \<open>The specification's reading of a resource document\<close>

text \<open>
  The specification's data model: a resource document is a key-value document whose
  \<^verbatim>\<open>status\<close>, when present, is a document whose \<^verbatim>\<open>conditions\<close>, when present, is a
  list of condition documents \<^verbatim>\<open>{type, status, reason?, message?}\<close>.
\<close>

fun is_dict :: "py \<Rightarrow> bool" where
  "is_dict (PyDict kvs) = True"
| "is_dict v = False"

fun resource_document :: "py \<Rightarrow> bool" where
  "resource_document (PyDict kvs) =
     (case map_of kvs ''status'' of
        None \<Rightarrow> True
      | Some (PyDict st) \<Rightarrow>
          (case map_of st ''conditions'' of
             None \<Rightarrow> True
           | Some (PyList conditions) \<Rightarrow> list_all is_dict conditions
           | Some v \<Rightarrow> False)
      | Some v \<Rightarrow> False)"
| "resource_document v = False"

text \<open>
  The specification's words: the object has a \<^verbatim>\<open>status.conditions\<close> entry with the
  requested condition type and condition status.
\<close>

fun condition_matches :: "string \<Rightarrow> string \<Rightarrow> py \<Rightarrow> bool" where
  "condition_matches condition_type condition_status (PyDict c) =
     (map_of c ''type'' = Some (PyStr condition_type)
      \<and> map_of c ''status'' = Some (PyStr condition_status))"
| "condition_matches condition_type condition_status v = False"

fun has_condition :: "py \<Rightarrow> string \<Rightarrow> string \<Rightarrow> bool" where
  "has_condition (PyDict kvs) condition_type condition_status =
     (case map_of kvs ''status'' of
        Some (PyDict st) \<Rightarrow>
          (case map_of st ''conditions'' of
             Some (PyList conditions) \<Rightarrow>
               list_ex (condition_matches condition_type condition_status) conditions
           | v \<Rightarrow> False)
      | v \<Rightarrow> False)"
| "has_condition v condition_type condition_status = False"

section \<open>Transports, streams and clocks for concrete runs\<close>

text \<open>
  Stand-ins for the cluster, as the \<^verbatim>\<open>Mock\<close> of the repository's tests: a transport
  that answers every call with a document naming the namespace and the body it was given,
  one that raises a given exception, one that returns a given document, a watch that
  delivers a given stream whatever is watched, and a clock that gives a list of readings in
  turn and repeats the last one. The numbers of the runs below are integers below
  \<open>2 ^ 53\<close>, which are doubles, as are their sums: there the rounding to the nearest double
  changes nothing, which \<open>exact\<close> stands for.
\<close>

definition exact :: "real \<Rightarrow> real" where
  "exact x = x"


definition recording_api :: "api_call \<Rightarrow> error + py" where
  "recording_api call =
     Inr (PyDict [(''namespace'', PyStr (kw_namespace call)),
                  (''body'', case kw_body call of Some (Document d) \<Rightarrow> d | v \<Rightarrow> PyNone)])"

definition raising_api :: "error \<Rightarrow> api_call \<Rightarrow> error + py" where
  "raising_api e call = Inl e"

definition returning_api :: "py \<Rightarrow> api_call \<Rightarrow> error + py" where
  "returning_api document call = Inr document"

definition delivering :: "event_stream \<Rightarrow> api_call \<Rightarrow> event_stream" where
  "delivering s call = s"

definition recording_stream :: "api_call \<Rightarrow> event_stream" where
  "recording_stream call =
     ([\<lparr>type = ''ADDED'', object = PyDict [(''namespace'', PyStr (kw_namespace call))]\<rparr>],
      Closed)"

definition readings :: "real list \<Rightarrow> nat \<Rightarrow> real" where
  "readings rs k = (if k < length rs then rs ! k else last rs)"

definition test_client :: "(api_call \<Rightarrow> error + py) \<Rightarrow> client" where
  "test_client api' =
     \<lparr>api_group = ''agents.kruise.io'', api_version = ''v1alpha1'',
      plural = ''sandboxsets'', namespace = ''test-namespace'',
      custom_objects_api = api'\<rparr>"

definition condition :: "string \<Rightarrow> string \<Rightarrow> py" where
  "condition t s = PyDict [(''type'', PyStr t), (''status'', PyStr s)]"

definition pending_event :: watch_event where
  "pending_event =
     \<lparr>type = ''ADDED'',
      object = PyDict [(''metadata'', PyDict [(''name'', PyStr ''demo'')]),
                       (''status'', PyDict [(''conditions'',
                          PyList [condition ''Ready'' ''False''])])]\<rparr>"

definition ready_event :: watch_event where
  "ready_event =
     \<lparr>type = ''MODIFIED'',
      object = PyDict [(''metadata'', PyDict [(''name'', PyStr ''demo'')]),
                       (''status'', PyDict [(''conditions'',
                          PyList [condition ''Ready'' ''True''])])]\<rparr>"

definition error_event :: watch_event where
  "error_event =
     \<lparr>type = ''ERROR'',
      object = PyDict [(''kind'', PyStr ''Status''), (''status'', PyStr ''Failure''),
                       (''code'', PyInt 410)]\<rparr>"

section \<open>Namespace resolution: \<^verbatim>\<open>namespace or self.namespace\<close>\<close>

lemma py_or_None: "py_or None d = d"
  by (simp add: py_or_def)

lemma py_or_empty: "py_or (Some []) d = d"
  by (simp add: py_or_def)

lemma py_or_Some: "n \<noteq> [] \<Longrightarrow> py_or (Some n) d = n"
  by (simp add: py_or_def)

lemma py_or_idem: "py_or (Some (py_or a d)) d = py_or a d"
  by (simp add: py_or_def split: option.splits)

section \<open>Exception translation on get\<close>

text \<open>
  Claim C1. When the transport's get fails, \<^verbatim>\<open>get_sandbox\<close> and \<^verbatim>\<open>get_sandboxset\<close>
  turn an \<open>ApiException\<close> whose status is 404 into \<open>SandboxNotFoundException\<close> and
  \<open>SandboxSetNotFoundException\<close>, with a message that carries the resource name and the
  resolved namespace; every other exception of the transport reaches the caller as it is.
\<close>

theorem get_not_found_translated:
  assumes "get_resource self name namespace' = Inl e"
  shows "(\<forall>reason body. e = ApiException (Some 404) reason body \<longrightarrow>
            get_sandbox self name namespace' =
              Inl (SandboxNotFoundException
                (''Sandbox '' @ [CHR 0x27] @ name @ [CHR 0x27] @ '' not found in namespace ''
                 @ [CHR 0x27] @ py_or namespace' (client.namespace self) @ [CHR 0x27]))
          \<and> get_sandboxset self name namespace' =
              Inl (SandboxSetNotFoundException
                (''SandboxSet '' @ [CHR 0x27] @ name @ [CHR 0x27]
                 @ '' not found in namespace ''
                 @ [CHR 0x27] @ py_or namespace' (client.namespace self) @ [CHR 0x27])))
       \<and> ((\<forall>reason body. e \<noteq> ApiException (Some 404) reason body) \<longrightarrow>
            get_sandbox self name namespace' = Inl e
          \<and> get_sandboxset self name namespace' = Inl e)"
  using assms by (cases e) (auto simp: get_sandbox_def get_sandboxset_def)

theorem get_not_found_translated_witness:
  "get_sandbox (test_client (raising_api (ApiException (Some 404) ''Not Found'' '''')))
       ''demo'' (Some ''other'')
     = Inl (SandboxNotFoundException
         (''Sandbox 'demo' not found in namespace 'other'' @ [CHR 0x27]))
   \<and> get_sandboxset (test_client (raising_api (ApiException (Some 404) ''Not Found'' '''')))
       ''demo'' None
     = Inl (SandboxSetNotFoundException
         (''SandboxSet 'demo' not found in namespace 'test-namespace'' @ [CHR 0x27]))
   \<and> get_sandbox (test_client (raising_api (ApiException (Some 403) ''Forbidden'' '''')))
       ''demo'' None
     = Inl (ApiException (Some 403) ''Forbidden'' '''')
   \<and> get_sandboxset (test_client (raising_api (TransportFailure ''connection refused'')))
       ''demo'' None
     = Inl (TransportFailure ''connection refused'')"
proof -
  let ?nf = "ApiException (Some 404) ''Not Found'' ''''"
  let ?fb = "ApiException (Some 403) ''Forbidden'' ''''"
  let ?tf = "TransportFailure ''connection refused''"
  have a: "get_resource (test_client (raising_api ?nf)) ''demo'' (Some ''other'') = Inl ?nf"
    by (simp add: get_resource_def test_client_def raising_api_def)
  have b: "get_resource (test_client (raising_api ?nf)) ''demo'' None = Inl ?nf"
    by (simp add: get_resource_def test_client_def raising_api_def)
  have c: "get_resource (test_client (raising_api ?fb)) ''demo'' None = Inl ?fb"
    by (simp add: get_resource_def test_client_def raising_api_def)
  have d: "get_resource (test_client (raising_api ?tf)) ''demo'' None = Inl ?tf"
    by (simp add: get_resource_def test_client_def raising_api_def)
  show ?thesis
    using get_not_found_translated [OF a] get_not_found_translated [OF b]
      get_not_found_translated [OF c] get_not_found_translated [OF d]
    by (simp add: py_or_def test_client_def)
qed

section \<open>Scaling and reading replicas\<close>

text \<open>
  Claim C5. For every name and every integer \<open>n\<close>, \<^verbatim>\<open>scale_sandboxset\<close> makes one
  patch call whose body is exactly \<^verbatim>\<open>{"spec": {"replicas": n}}\<close>.
\<close>

theorem scale_patches_replicas_only:
  "scale_sandboxset self name n namespace' =
     custom_objects_api self
       \<lparr>operation = patch_namespaced_custom_object,
        kw_group = api_group self, kw_version = api_version self,
        kw_namespace = py_or namespace' (client.namespace self), kw_plural = plural self,
        kw_name = Some name,
        kw_body = Some (Document (PyDict [(''spec'', PyDict [(''replicas'', PyInt n)])])),
        kw_label_selector = None, kw_field_selector = None,
        kw_timeout_seconds = None, kw_content_type = None\<rparr>"
  by (simp add: scale_sandboxset_def)

theorem scale_patches_replicas_only_witness:
  "scale_sandboxset (test_client recording_api) ''demo'' 5 None =
     Inr (PyDict [(''namespace'', PyStr ''test-namespace''),
                  (''body'', PyDict [(''spec'', PyDict [(''replicas'', PyInt 5)])])])"
  using scale_patches_replicas_only [of "test_client recording_api" "''demo''" 5 None]
  by (simp add: test_client_def recording_api_def py_or_def)

text \<open>
  Claim C6. When the get returns a document, \<^verbatim>\<open>get_sandboxset_replicas\<close> returns the
  value stored at \<^verbatim>\<open>spec.replicas\<close> when it is present, and 0 when \<^verbatim>\<open>replicas\<close> is
  absent from \<^verbatim>\<open>spec\<close> or \<^verbatim>\<open>spec\<close> is absent from the document.
\<close>

theorem replicas_default_zero:
  assumes "get_resource self name namespace' = Inr (PyDict document)"
  shows "(map_of document ''spec'' = None \<longrightarrow>
            get_sandboxset_replicas self name namespace' = Inr (PyInt 0))
       \<and> (\<forall>spec. map_of document ''spec'' = Some (PyDict spec) \<longrightarrow>
            (map_of spec ''replicas'' = None \<longrightarrow>
               get_sandboxset_replicas self name namespace' = Inr (PyInt 0))
          \<and> (\<forall>v. map_of spec ''replicas'' = Some v \<longrightarrow>
               get_sandboxset_replicas self name namespace' = Inr v))"
  using assms by (simp add: get_sandboxset_replicas_def get_sandboxset_def)

theorem replicas_default_zero_witness:
  "get_sandboxset_replicas
     (test_client (returning_api (PyDict [(''spec'', PyDict [(''replicas'', PyInt 3)])])))
     ''demo'' None = Inr (PyInt 3)
   \<and> get_sandboxset_replicas
     (test_client (returning_api (PyDict [(''spec'', PyDict [])]))) ''demo'' None
     = Inr (PyInt 0)
   \<and> get_sandboxset_replicas
     (test_client (returning_api (PyDict [(''metadata'', PyDict [])]))) ''demo'' None
     = Inr (PyInt 0)"
proof -
  let ?d1 = "[(''spec'', PyDict [(''replicas'', PyInt 3)])]"
  let ?d2 = "[(''spec'', PyDict [])]"
  let ?d3 = "[(''metadata'', PyDict [])]"
  have a: "get_resource (test_client (returning_api (PyDict ?d1))) ''demo'' None = Inr (PyDict ?d1)"
    by (simp add: get_resource_def test_client_def returning_api_def)
  have b: "get_resource (test_client (returning_api (PyDict ?d2))) ''demo'' None = Inr (PyDict ?d2)"
    by (simp add: get_resource_def test_client_def returning_api_def)
  have c: "get_resource (test_client (returning_api (PyDict ?d3))) ''demo'' None = Inr (PyDict ?d3)"
    by (simp add: get_resource_def test_client_def returning_api_def)
  show ?thesis
    using replicas_default_zero [OF a] replicas_default_zero [OF b]
      replicas_default_zero [OF c]
    by simp
qed

section \<open>The watch generator\<close>

lemma watch_loop_no_error:
  "\<forall>e\<in>set evs. type e \<noteq> ''ERROR'' \<Longrightarrow> watch_loop evs fin = (evs, fin)"
  by (induction evs) auto

lemma watch_loop_error:
  "\<forall>e\<in>set pre. type e \<noteq> ''ERROR'' \<Longrightarrow> type ev = ''ERROR'' \<Longrightarrow>
   watch_loop (pre @ ev # post) fin = (pre @ [ev], Closed)"
  by (induction pre) auto

lemma watch_loop_prefix: "\<exists>rest. evs = fst (watch_loop evs fin) @ rest"
  by (induction evs) auto

lemma watch_loop_closed:
  "\<exists>e\<in>set evs. type e = ''ERROR'' \<Longrightarrow> snd (watch_loop evs fin) = Closed"
  by (induction evs) auto

lemma watch_loop_error_last:
  "i < length (fst (watch_loop evs fin)) \<Longrightarrow> type (fst (watch_loop evs fin) ! i) = ''ERROR'' \<Longrightarrow>
   Suc i = length (fst (watch_loop evs fin))"
proof (induction evs arbitrary: i)
  case Nil
  then show ?case by simp
next
  case (Cons ev evs)
  show ?case
  proof (cases "type ev = ''ERROR''")
    case True
    with Cons.prems show ?thesis by simp
  next
    case False
    with Cons.prems obtain j where j: "i = Suc j"
      by (cases i) auto
    with Cons.prems False have "j < length (fst (watch_loop evs fin))"
      and "type (fst (watch_loop evs fin) ! j) = ''ERROR''" by auto
    then have "Suc j = length (fst (watch_loop evs fin))" by (rule Cons.IH)
    with False j show ?thesis by simp
  qed
qed

lemma watch_resources_call:
  "watch_resources stream self namespace' label_selector field_selector timeout_seconds =
     watch_loop
       (fst (stream (namespaced list_namespaced_custom_object self
          (py_or namespace' (client.namespace self)) None None
          label_selector field_selector timeout_seconds None)))
       (snd (stream (namespaced list_namespaced_custom_object self
          (py_or namespace' (client.namespace self)) None None
          label_selector field_selector timeout_seconds None)))"
  by (simp add: watch_resources_def Let_def)

text \<open>
  Claim C7. Whatever the underlying stream delivers, an event of type \<^verbatim>\<open>ERROR\<close> can only
  be the last event that \<^verbatim>\<open>watch_resources\<close> yields. The events yielded are a prefix of
  the underlying ones: all of them, ending as the underlying stream ends, when none is an
  \<^verbatim>\<open>ERROR\<close>; and when one is, the generator ends normally.
\<close>

theorem watch_ends_at_error:
  assumes "stream (namespaced list_namespaced_custom_object self
             (py_or namespace' (client.namespace self)) None None
             label_selector field_selector timeout_seconds None) = (evs, fin)"
    and "watch_resources stream self namespace' label_selector field_selector timeout_seconds
           = (ys, fin')"
  shows "(\<forall>i < length ys. type (ys ! i) = ''ERROR'' \<longrightarrow> Suc i = length ys)
       \<and> (\<exists>rest. evs = ys @ rest)
       \<and> ((\<forall>e\<in>set evs. type e \<noteq> ''ERROR'') \<longrightarrow> ys = evs \<and> fin' = fin)
       \<and> ((\<exists>e\<in>set evs. type e = ''ERROR'') \<longrightarrow> fin' = Closed)"
proof -
  from assms have w: "watch_loop evs fin = (ys, fin')"
    by (simp add: watch_resources_call)
  then have ys: "ys = fst (watch_loop evs fin)" and fin': "fin' = snd (watch_loop evs fin)"
    by simp_all
  have "\<forall>i < length ys. type (ys ! i) = ''ERROR'' \<longrightarrow> Suc i = length ys"
    unfolding ys using watch_loop_error_last by blast
  moreover have "\<exists>rest. evs = ys @ rest"
    unfolding ys by (rule watch_loop_prefix)
  moreover have "(\<forall>e\<in>set evs. type e \<noteq> ''ERROR'') \<longrightarrow> ys = evs \<and> fin' = fin"
    using w watch_loop_no_error [of evs fin] by auto
  moreover have "(\<exists>e\<in>set evs. type e = ''ERROR'') \<longrightarrow> fin' = Closed"
    unfolding fin' using watch_loop_closed by blast
  ultimately show ?thesis by blast
qed

theorem watch_ends_at_error_witness:
  "watch_resources (delivering ([pending_event, error_event, ready_event], Blocked))
     (test_client recording_api) None None None None = ([pending_event, error_event], Closed)
   \<and> watch_resources (delivering ([pending_event, ready_event], Blocked))
     (test_client recording_api) None None None None
     = ([pending_event, ready_event], Blocked)"
proof -
  let ?s1 = "([pending_event, error_event, ready_event], Blocked)"
  let ?s2 = "([pending_event, ready_event], Blocked)"
  have a: "watch_resources (delivering ?s1) (test_client recording_api) None None None None
             = ([pending_event, error_event], Closed)"
    by (simp add: watch_resources_def delivering_def pending_event_def error_event_def)
  have b: "watch_resources (delivering ?s2) (test_client recording_api) None None None None
             = ([pending_event, ready_event], Blocked)"
    by (simp add: watch_resources_def delivering_def pending_event_def ready_event_def)
  have "delivering ?s1 (namespaced list_namespaced_custom_object (test_client recording_api)
          (py_or None (client.namespace (test_client recording_api))) None None
          None None None None) = ?s1"
    by (simp add: delivering_def)
  from watch_ends_at_error [where stream = "delivering ?s1"
      and self = "test_client recording_api" and namespace' = None, OF this a]
  have "\<forall>i<2. type ([pending_event, error_event] ! i) = ''ERROR'' \<longrightarrow> Suc i = 2"
    by simp
  with a b show ?thesis by simp
qed

text \<open>
  Claim C10. When the underlying stream has an \<^verbatim>\<open>ERROR\<close> event, \<^verbatim>\<open>watch_resources\<close>
  yields the events before the first such event, then that event itself as its last item,
  and ends.
\<close>

theorem watch_delivers_error_event:
  assumes "stream (namespaced list_namespaced_custom_object self
             (py_or namespace' (client.namespace self)) None None
             label_selector field_selector timeout_seconds None) = (pre @ ev # post, fin)"
    and "\<forall>e\<in>set pre. type e \<noteq> ''ERROR''"
    and "type ev = ''ERROR''"
  shows "watch_resources stream self namespace' label_selector field_selector timeout_seconds
           = (pre @ [ev], Closed)"
  using assms by (simp add: watch_resources_call watch_loop_error)

theorem watch_delivers_error_event_witness:
  "watch_resources (delivering ([pending_event, error_event, ready_event], Closed))
     (test_client recording_api) None None None None = ([pending_event, error_event], Closed)"
proof -
  have "delivering ([pending_event, error_event, ready_event], Closed)
          (namespaced list_namespaced_custom_object (test_client recording_api)
          (py_or None (client.namespace (test_client recording_api))) None None
          None None None None) = ([pending_event] @ error_event # [ready_event], Closed)"
    by (simp add: delivering_def)
  from watch_delivers_error_event [where stream =
      "delivering ([pending_event, error_event, ready_event], Closed)"
      and self = "test_client recording_api" and namespace' = None
      and pre = "[pending_event]" and ev = error_event, OF this]
  show ?thesis by (simp add: pending_event_def error_event_def)
qed

section \<open>Namespace resolution in the operations of the base client\<close>

text \<open>
  Every operation resolves its namespace with \<^verbatim>\<open>namespace or self.namespace\<close> and makes
  its call there; \<^verbatim>\<open>wait_for_resource_condition\<close> passes the resolved namespace on to
  \<^verbatim>\<open>watch_resources\<close>, which resolves it once more to the same value.
\<close>

lemma base_operations_namespace:
  fixes self :: client and namespace' :: "string option"
  defines "ns \<equiv> py_or namespace' (client.namespace self)"
  shows "create_resource self body namespace' =
      custom_objects_api self (namespaced create_namespaced_custom_object self ns
        None (Some (Document body)) None None None None)"
    and "get_resource self name namespace' =
      custom_objects_api self (namespaced get_namespaced_custom_object self ns
        (Some name) None None None None None)"
    and "update_resource self name body namespace' =
      custom_objects_api self (namespaced patch_namespaced_custom_object self ns
        (Some name) (Some (Document body)) None None None None)"
    and "update_resource_status self name body namespace' =
      custom_objects_api self (namespaced patch_namespaced_custom_object_status self ns
        (Some name) (Some (Document body)) None None None None)"
    and "patch_resource self name body namespace' content_type =
      custom_objects_api self (namespaced patch_namespaced_custom_object self ns
        (Some name) (Some (Document body)) None None None (Some content_type))"
    and "delete_resource self name namespace' grace_period_seconds =
      custom_objects_api self (namespaced delete_namespaced_custom_object self ns
        (Some name) (Some (V1DeleteOptions grace_period_seconds)) None None None None)"
    and "list_resources self namespace' label_selector field_selector =
      custom_objects_api self (namespaced list_namespaced_custom_object self ns
        None None label_selector field_selector None None)"
    and "delete_collection_resources self namespace' label_selector field_selector =
      custom_objects_api self (namespaced delete_collection_namespaced_custom_object self ns
        None None label_selector field_selector None None)"
    and "watch_resources stream self namespace' label_selector field_selector timeout_seconds =
      watch_loop
        (fst (stream (namespaced list_namespaced_custom_object self ns
           None None label_selector field_selector timeout_seconds None)))
        (snd (stream (namespaced list_namespaced_custom_object self ns
           None None label_selector field_selector timeout_seconds None)))"
    and "wait_for_resource_condition fl stream clock self name condition_type condition_status
           timeout namespace' =
      (case int_to_float fl timeout of
         Inl e \<Rightarrow> Some (Inl e)
       | Inr t \<Rightarrow>
           wait_loop clock 1 (float_add fl (clock 0) t) name ns
             condition_type condition_status
             (fst (watch_loop
                (fst (stream (namespaced list_namespaced_custom_object self ns
                   None None None (Some (''metadata.name='' @ name)) None None)))
                (snd (stream (namespaced list_namespaced_custom_object self ns
                   None None None (Some (''metadata.name='' @ name)) None None)))))
             (snd (watch_loop
                (fst (stream (namespaced list_namespaced_custom_object self ns
                   None None None (Some (''metadata.name='' @ name)) None None)))
                (snd (stream (namespaced list_namespaced_custom_object self ns
                   None None None (Some (''metadata.name='' @ name)) None None))))))"
  unfolding ns_def
  by (simp_all add: create_resource_def get_resource_def update_resource_def
      update_resource_status_def patch_resource_def delete_resource_def list_resources_def
      delete_collection_resources_def watch_resources_call wait_for_resource_condition_def
      Let_def py_or_idem split: sum.splits)

text \<open>
  Claim C8, as stated, fails for the argument \<^verbatim>\<open>""\<close>: an empty string is an argument
  that is provided, and the call does not go to the namespace \<^verbatim>\<open>""\<close>.
\<close>

theorem empty_namespace_argument_counterexample:
  "create_resource (test_client recording_api) (PyDict []) (Some '''')
     \<noteq> custom_objects_api (test_client recording_api)
         (namespaced create_namespaced_custom_object (test_client recording_api) ''''
            None (Some (Document (PyDict []))) None None None None)"
  by (simp add: create_resource_def test_client_def recording_api_def py_or_def)

text \<open>
  Claim C8, amended. For each of the ten operations of the base client (create, get,
  update, update of the status, patch, delete, list, delete of a collection, watch, wait
  for a condition): when a non-empty namespace is given, the call is made in that
  namespace; when none is given, it is made in the client's default namespace.
\<close>

theorem namespace_argument_overrides_default:
  assumes "namespace' = None \<and> ns = client.namespace self \<or> namespace' = Some ns \<and> ns \<noteq> []"
  shows "create_resource self body namespace' =
      custom_objects_api self (namespaced create_namespaced_custom_object self ns
        None (Some (Document body)) None None None None)
    \<and> get_resource self name namespace' =
      custom_objects_api self (namespaced get_namespaced_custom_object self ns
        (Some name) None None None None None)
    \<and> update_resource self name body namespace' =
      custom_objects_api self (namespaced patch_namespaced_custom_object self ns
        (Some name) (Some (Document body)) None None None None)
    \<and> update_resource_status self name body namespace' =
      custom_objects_api self (namespaced patch_namespaced_custom_object_status self ns
        (Some name) (Some (Document body)) None None None None)
    \<and> patch_resource self name body namespace' content_type =
      custom_objects_api self (namespaced patch_namespaced_custom_object self ns
        (Some name) (Some (Document body)) None None None (Some content_type))
    \<and> delete_resource self name namespace' grace_period_seconds =
      custom_objects_api self (namespaced delete_namespaced_custom_object self ns
        (Some name) (Some (V1DeleteOptions grace_period_seconds)) None None None None)
    \<and> list_resources self namespace' label_selector field_selector =
      custom_objects_api self (namespaced list_namespaced_custom_object self ns
        None None label_selector field_selector None None)
    \<and> delete_collection_resources self namespace' label_selector field_selector =
      custom_objects_api self (namespaced delete_collection_namespaced_custom_object self ns
        None None label_selector field_selector None None)
    \<and> watch_resources stream self namespace' label_selector field_selector timeout_seconds =
      watch_loop
        (fst (stream (namespaced list_namespaced_custom_object self ns
           None None label_selector field_selector timeout_seconds None)))
        (snd (stream (namespaced list_namespaced_custom_object self ns
           None None label_selector field_selector timeout_seconds None)))
    \<and> wait_for_resource_condition fl stream clock self name condition_type condition_status
           timeout namespace' =
      (case int_to_float fl timeout of
         Inl e \<Rightarrow> Some (Inl e)
       | Inr t \<Rightarrow>
           wait_loop clock 1 (float_add fl (clock 0) t) name ns
             condition_type condition_status
             (fst (watch_loop
                (fst (stream (namespaced list_namespaced_custom_object self ns
                   None None None (Some (''metadata.name='' @ name)) None None)))
                (snd (stream (namespaced list_namespaced_custom_object self ns
                   None None None (Some (''metadata.name='' @ name)) None None)))))
             (snd (watch_loop
                (fst (stream (namespaced list_namespaced_custom_object self ns
                   None None None (Some (''metadata.name='' @ name)) None None)))
                (snd (stream (namespaced list_namespaced_custom_object self ns
                   None None None (Some (''metadata.name='' @ name)) None None))))))"
proof -
  from assms have "py_or namespace' (client.namespace self) = ns"
    by (auto simp: py_or_def)
  then show ?thesis
    using base_operations_namespace [where self = self and namespace' = namespace']
    by (simp cong: sum.case_cong)
qed

theorem namespace_argument_overrides_default_witness:
  "create_resource (test_client recording_api) (PyDict []) (Some ''other-namespace'')
     = Inr (PyDict [(''namespace'', PyStr ''other-namespace''), (''body'', PyDict [])])
   \<and> get_resource (test_client recording_api) ''demo'' None
     = Inr (PyDict [(''namespace'', PyStr ''test-namespace''), (''body'', PyNone)])
   \<and> watch_resources recording_stream (test_client recording_api) (Some ''other-namespace'')
       None None None
     = ([\<lparr>type = ''ADDED'',
          object = PyDict [(''namespace'', PyStr ''other-namespace'')]\<rparr>], Closed)"
proof -
  have a: "Some ''other-namespace'' = None
             \<and> ''other-namespace'' = client.namespace (test_client recording_api)
           \<or> Some ''other-namespace'' = Some ''other-namespace'' \<and> ''other-namespace'' \<noteq> []"
    by simp
  have b: "None = None \<and> ''test-namespace'' = client.namespace (test_client recording_api)
           \<or> None = Some ''test-namespace'' \<and> ''test-namespace'' \<noteq> []"
    by (simp add: test_client_def)
  show ?thesis
    using namespace_argument_overrides_default
            [where stream = recording_stream and self = "test_client recording_api"
               and body = "PyDict []", OF a]
          namespace_argument_overrides_default
            [where stream = recording_stream and self = "test_client recording_api"
               and name = "''demo''", OF b]
    by (simp add: test_client_def recording_api_def recording_stream_def)
qed

text \<open>
  Claim C9. With the empty string as the namespace argument, each of the ten operations
  makes its call in the client's default namespace.
\<close>

theorem empty_namespace_argument_uses_default:
  "create_resource self body (Some []) =
      custom_objects_api self (namespaced create_namespaced_custom_object self (client.namespace self)
        None (Some (Document body)) None None None None)
    \<and> get_resource self name (Some []) =
      custom_objects_api self (namespaced get_namespaced_custom_object self (client.namespace self)
        (Some name) None None None None None)
    \<and> update_resource self name body (Some []) =
      custom_objects_api self (namespaced patch_namespaced_custom_object self (client.namespace self)
        (Some name) (Some (Document body)) None None None None)
    \<and> update_resource_status self name body (Some []) =
      custom_objects_api self (namespaced patch_namespaced_custom_object_status self (client.namespace self)
        (Some name) (Some (Document body)) None None None None)
    \<and> patch_resource self name body (Some []) content_type =
      custom_objects_api self (namespaced patch_namespaced_custom_object self (client.namespace self)
        (Some name) (Some (Document body)) None None None (Some content_type))
    \<and> delete_resource self name (Some []) grace_period_seconds =
      custom_objects_api self (namespaced delete_namespaced_custom_object self (client.namespace self)
        (Some name) (Some (V1DeleteOptions grace_period_seconds)) None None None None)
    \<and> list_resources self (Some []) label_selector field_selector =
      custom_objects_api self (namespaced list_namespaced_custom_object self (client.namespace self)
        None None label_selector field_selector None None)
    \<and> delete_collection_resources self (Some []) label_selector field_selector =
      custom_objects_api self (namespaced delete_collection_namespaced_custom_object self (client.namespace self)
        None None label_selector field_selector None None)
    \<and> watch_resources stream self (Some []) label_selector field_selector timeout_seconds =
      watch_loop
        (fst (stream (namespaced list_namespaced_custom_object self (client.namespace self)
           None None label_selector field_selector timeout_seconds None)))
        (snd (stream (namespaced list_namespaced_custom_object self (client.namespace self)
           None None label_selector field_selector timeout_seconds None)))
    \<and> wait_for_resource_condition fl stream clock self name condition_type condition_status
           timeout (Some []) =
      (case int_to_float fl timeout of
         Inl e \<Rightarrow> Some (Inl e)
       | Inr t \<Rightarrow>
           wait_loop clock 1 (float_add fl (clock 0) t) name (client.namespace self)
             condition_type condition_status
             (fst (watch_loop
                (fst (stream (namespaced list_namespaced_custom_object self (client.namespace self)
                   None None None (Some (''metadata.name='' @ name)) None None)))
                (snd (stream (namespaced list_namespaced_custom_object self (client.namespace self)
                   None None None (Some (''metadata.name='' @ name)) None None)))))
             (snd (watch_loop
                (fst (stream (namespaced list_namespaced_custom_object self (client.namespace self)
                   None None None (Some (''metadata.name='' @ name)) None None)))
                (snd (stream (namespaced list_namespaced_custom_object self (client.namespace self)
                   None None None (Some (''metadata.name='' @ name)) None None))))))"
  using base_operations_namespace [where self = self and namespace' = "Some []"]
  by (simp add: py_or_empty cong: sum.case_cong)

theorem empty_namespace_argument_uses_default_witness:
  "create_resource (test_client recording_api) (PyDict []) (Some '''')
     = Inr (PyDict [(''namespace'', PyStr ''test-namespace''), (''body'', PyDict [])])
   \<and> watch_resources recording_stream (test_client recording_api) (Some '''') None None None
     = ([\<lparr>type = ''ADDED'',
          object = PyDict [(''namespace'', PyStr ''test-namespace'')]\<rparr>], Closed)"
  using empty_namespace_argument_uses_default
          [where stream = recording_stream and self = "test_client recording_api"
             and body = "PyDict []"]
  by (simp add: test_client_def recording_api_def recording_stream_def)

section \<open>Waiting for a condition\<close>

text \<open>
  On a resource document in the sense of the specification, the test that the code makes
  on an event's object is the specification's: the object has a matching entry in
  \<^verbatim>\<open>status.conditions\<close>.
\<close>

lemma conditions_loop_document:
  "list_all is_dict conditions \<Longrightarrow>
   conditions_loop conditions ct cs = Inr (list_ex (condition_matches ct cs) conditions)"
proof (induction conditions)
  case Nil
  then show ?case by simp
next
  case (Cons c conditions)
  then obtain kvs where c: "c = PyDict kvs" by (cases c) auto
  from Cons show ?case unfolding c
    by (auto split: option.splits)
qed

lemma condition_met_document:
  assumes "resource_document r"
  shows "condition_met r ct cs = Inr (has_condition r ct cs)"
proof (cases r)
  case (PyDict kvs)
  show ?thesis
  proof (cases "map_of kvs ''status''")
    case None
    with PyDict show ?thesis by (simp add: condition_met_def)
  next
    case status: (Some st)
    with assms PyDict obtain skv where st: "st = PyDict skv" by (cases st) auto
    show ?thesis
    proof (cases "map_of skv ''conditions''")
      case None
      with PyDict status st show ?thesis by (simp add: condition_met_def)
    next
      case (Some cv)
      with assms PyDict status st obtain cds where "cv = PyList cds" "list_all is_dict cds"
        by (cases cv) auto
      with PyDict Some st status show ?thesis
        by (simp add: condition_met_def conditions_loop_document)
    qed
  qed
qed (use assms in auto)

lemma wait_loop_skips:
  assumes "\<forall>e\<in>set pre. condition_met (object e) ct cs = Inr False"
    and "\<forall>j<length pre. \<not> float_gt (clock (k + j)) end_time"
  shows "wait_loop clock k end_time name ns ct cs (pre @ rest) fin =
         wait_loop clock (k + length pre) end_time name ns ct cs rest fin"
  using assms
proof (induction pre arbitrary: k)
  case Nil
  then show ?case by simp
next
  case (Cons e pre)
  from Cons.prems(2) have now: "\<not> float_gt (clock k) end_time" by force
  from Cons.prems(2) have later: "\<forall>j<length pre. \<not> float_gt (clock (Suc k + j)) end_time"
    by fastforce
  from Cons.prems(1) have "\<forall>e\<in>set pre. condition_met (object e) ct cs = Inr False"
    by simp
  from Cons.IH [OF this later] Cons.prems(1) now show ?case by simp
qed

lemma watch_loop_keeps:
  "\<forall>e\<in>set pre. type e \<noteq> ''ERROR'' \<Longrightarrow>
   \<exists>rest. fst (watch_loop (pre @ event # post) fin) = pre @ event # rest"
  by (induction pre) auto

lemma watch_loop_subset: "set (fst (watch_loop evs fin)) \<subseteq> set evs"
  by (induction evs) auto

lemma watch_loop_Closed: "snd (watch_loop evs Closed) = Closed"
  by (induction evs) auto

lemma wait_loop_times_out:
  "\<forall>e\<in>set evs. condition_met (object e) ct cs = Inr False \<Longrightarrow>
   \<exists>msg. wait_loop clock k end_time name ns ct cs evs Closed = Some (Inl (TimeoutError msg))"
  by (induction evs arbitrary: k) auto

text \<open>
  A timeout too large for a float raises \<^verbatim>\<open>OverflowError\<close> before anything is watched.
\<close>

lemma wait_overflows:
  "\<bar>timeout\<bar> \<ge> 2 ^ 1024 - 2 ^ 970 \<Longrightarrow>
   wait_for_resource_condition fl stream clock self name ct cs timeout namespace'
     = Some (Inl OverflowError)"
  by (simp add: wait_for_resource_condition_def int_to_float_def)

text \<open>
  When the timeout converts to a float, the stream is closed by the server and none of its
  events carries the condition, the call raises \<^verbatim>\<open>TimeoutError\<close>, with one of its two
  messages.
\<close>

lemma wait_times_out_when_closed:
  assumes "stream (namespaced list_namespaced_custom_object self
             (py_or namespace' (client.namespace self)) None None
             None (Some (''metadata.name='' @ name)) None None) = (evs, Closed)"
    and "\<forall>e\<in>set evs. resource_document (object e) \<and> \<not> has_condition (object e) ct cs"
    and "\<bar>timeout\<bar> < 2 ^ 1024 - 2 ^ 970"
  shows "\<exists>msg. wait_for_resource_condition fl stream clock self name ct cs timeout namespace'
           = Some (Inl (TimeoutError msg))"
proof -
  let ?ys = "fst (watch_loop evs Closed)"
  from assms(2) watch_loop_subset [of evs Closed]
  have "\<forall>e\<in>set ?ys. condition_met (object e) ct cs = Inr False"
    by (auto simp: condition_met_document)
  from wait_loop_times_out [OF this] show ?thesis
    using assms(1,3)
    by (simp add: base_operations_namespace watch_loop_Closed int_to_float_def)
qed

text \<open>
  Claim C3, as stated, fails: a stream can contain an event with the requested condition
  and the call still not return it. Here the event before it has been examined when the
  clock reads 400, past the deadline of 0 + 300, and the call raises \<^verbatim>\<open>TimeoutError\<close>.
\<close>

theorem wait_misses_match_counterexample:
  "has_condition (object ready_event) ''Ready'' ''True''
   \<and> wait_for_resource_condition exact (delivering ([pending_event, ready_event], Closed))
       (readings [0, 400]) (test_client recording_api) ''demo'' ''Ready'' ''True'' 300 None
     = Some (Inl (TimeoutError
         ''Timeout waiting for condition Ready=True for resource demo in namespace test-namespace''))"
  by (simp add: wait_for_resource_condition_def watch_resources_def delivering_def
      test_client_def py_or_def readings_def pending_event_def ready_event_def condition_def
      condition_met_def int_to_float_def float_add_def exact_def)

text \<open>
  Claim C3, amended. Let the timeout be one that converts to a float, and the deadline the
  float sum of the clock's value at the start and the timeout. If the stream that is
  watched delivers an event whose object is a resource document with a
  \<^verbatim>\<open>status.conditions\<close> entry of the requested type and status, every event before it
  is not of type \<^verbatim>\<open>ERROR\<close> and is a resource document without such an entry, and the
  clock is not past the deadline when each of these events, the matching one included, has
  been examined, then \<^verbatim>\<open>wait_for_resource_condition\<close> returns the object of that
  event: the first one, in stream order, that has the condition.
\<close>

theorem wait_returns_first_match:
  assumes "stream (namespaced list_namespaced_custom_object self
             (py_or namespace' (client.namespace self)) None None
             None (Some (''metadata.name='' @ name)) None None) = (pre @ event # post, fin)"
    and "\<forall>e\<in>set pre. type e \<noteq> ''ERROR'' \<and> resource_document (object e)
           \<and> \<not> has_condition (object e) condition_type condition_status"
    and "\<bar>timeout\<bar> < 2 ^ 1024 - 2 ^ 970"
    and "\<forall>k. 1 \<le> k \<and> k \<le> Suc (length pre) \<longrightarrow>
           \<not> float_gt (clock k) (float_add fl (clock 0) (fl (real_of_int timeout)))"
    and "resource_document (object event)"
    and "has_condition (object event) condition_type condition_status"
  shows "wait_for_resource_condition fl stream clock self name condition_type condition_status
           timeout namespace' = Some (Inr (object event))"
proof -
  let ?end = "float_add fl (clock 0) (fl (real_of_int timeout))"
  from assms(3) have conv: "int_to_float fl timeout = Inr (fl (real_of_int timeout))"
    by (simp add: int_to_float_def)
  from assms(2) obtain rest
    where ys: "fst (watch_loop (pre @ event # post) fin) = pre @ event # rest"
    using watch_loop_keeps [of pre event post fin] by blast
  from assms(2) have skip: "\<forall>e\<in>set pre.
      condition_met (object e) condition_type condition_status = Inr False"
    by (simp add: condition_met_document)
  from assms(4) have time: "\<forall>j<length pre. \<not> float_gt (clock (1 + j)) ?end"
    by simp
  from assms(5,6) have hit:
    "condition_met (object event) condition_type condition_status = Inr True"
    by (simp add: condition_met_document)
  have "wait_for_resource_condition fl stream clock self name condition_type condition_status
          timeout namespace' =
        wait_loop clock 1 ?end name (py_or namespace' (client.namespace self))
          condition_type condition_status (pre @ event # rest)
          (snd (watch_loop (pre @ event # post) fin))"
    using assms(1) ys conv by (simp add: base_operations_namespace)
  also have "\<dots> = wait_loop clock (1 + length pre) ?end name
          (py_or namespace' (client.namespace self))
          condition_type condition_status (event # rest)
          (snd (watch_loop (pre @ event # post) fin))"
    by (rule wait_loop_skips [OF skip time])
  also have "\<dots> = Some (Inr (object event))"
    using hit by simp
  finally show ?thesis .
qed

theorem wait_returns_first_match_witness:
  "wait_for_resource_condition exact
     (delivering ([pending_event, ready_event, error_event], Closed))
     (readings [0, 10, 20]) (test_client recording_api) ''demo'' ''Ready'' ''True'' 300 None
   = Some (Inr (object ready_event))"
proof -
  let ?s = "([pending_event, ready_event, error_event], Closed)"
  have a: "delivering ?s (namespaced list_namespaced_custom_object (test_client recording_api)
             (py_or None (client.namespace (test_client recording_api))) None None
             None (Some (''metadata.name='' @ ''demo'')) None None)
           = ([pending_event] @ ready_event # [error_event], Closed)"
    by (simp add: delivering_def)
  have b: "\<forall>e\<in>set [pending_event]. type e \<noteq> ''ERROR'' \<and> resource_document (object e)
             \<and> \<not> has_condition (object e) ''Ready'' ''True''"
    by (simp add: pending_event_def condition_def)
  have c: "\<bar>300 :: int\<bar> < 2 ^ 1024 - 2 ^ 970"
    by simp
  have d: "\<forall>k. 1 \<le> k \<and> k \<le> Suc (length [pending_event]) \<longrightarrow>
             \<not> float_gt (readings [0, 10, 20] k)
                 (float_add exact (readings [0, 10, 20] 0) (exact (real_of_int 300)))"
    by (simp add: readings_def float_add_def exact_def nth_Cons')
  have e: "resource_document (object ready_event)"
    by (simp add: ready_event_def condition_def)
  have f: "has_condition (object ready_event) ''Ready'' ''True''"
    by (simp add: ready_event_def condition_def)
  show ?thesis
    using wait_returns_first_match [where fl = exact and stream = "delivering ?s"
        and self = "test_client recording_api" and namespace' = None
        and pre = "[pending_event]" and event = ready_event, OF a b c d e f]
    by simp
qed

text \<open>
  Claim C2. The claim is that the call raises \<^verbatim>\<open>TimeoutError\<close> whenever no match
  arrives within the timeout. The code reads the clock only after an event without the
  condition, so two runs escape the deadline. In the first, every clock reading after the
  start is 400, past the deadline of 0 + 300, when the first event arrives with the
  condition: the call returns the resource. In the second, one event without the condition
  arrives in time and then none ever arrives, the stream staying open: the call never
  returns.
\<close>

theorem wait_ignores_deadline:
  "wait_for_resource_condition exact (delivering ([ready_event], Closed))
       (readings [0, 400]) (test_client recording_api) ''demo'' ''Ready'' ''True'' 300 None
     = Some (Inr (object ready_event))
   \<and> wait_for_resource_condition exact (delivering ([pending_event], Blocked))
       (readings [0, 10]) (test_client recording_api) ''demo'' ''Ready'' ''True'' 300 None
     = None"
  by (simp add: wait_for_resource_condition_def watch_resources_def delivering_def
      test_client_def py_or_def readings_def pending_event_def ready_event_def condition_def
      condition_met_def int_to_float_def float_add_def exact_def)

section \<open>The typed create helpers\<close>

text \<open>
  The body each helper sends: \<^verbatim>\<open>create_sandbox\<close> stores the two strings, the other two
  helpers store tuples of one string.
\<close>

lemma create_sandbox_strings:
  "create_sandbox (SandboxClient namespace' api') sandbox =
     api' (create_call (SandboxClient namespace' api') (PyDict
       (AList.update ''kind'' (PyStr ''Sandbox'')
         (AList.update ''apiVersion'' (PyStr ''agents.kruise.io/v1alpha1'') sandbox))))"
  by (simp add: create_sandbox_def create_sandbox_body_def SandboxClient_def setattr_def
      model_dump_def)

lemma create_sandbox_body_fields:
  "py_getitem (create_sandbox_body (SandboxClient namespace' api') sandbox) ''apiVersion''
     = Inr (PyStr ''agents.kruise.io/v1alpha1'')
   \<and> py_getitem (create_sandbox_body (SandboxClient namespace' api') sandbox) ''kind''
     = Inr (PyStr ''Sandbox'')"
  by (simp add: create_sandbox_body_def SandboxClient_def setattr_def model_dump_def
      update_conv')

lemma create_sandboxset_body_fields:
  "py_getitem (create_sandboxset_body (SandboxSetClient namespace' api') sandboxset)
       ''apiVersion''
     = Inr (PyTuple [PyStr ''agents.kruise.io/v1alpha1''])
   \<and> py_getitem (create_sandboxset_body (SandboxSetClient namespace' api') sandboxset) ''kind''
     = Inr (PyTuple [PyStr ''SandboxSet''])"
  by (simp add: create_sandboxset_body_def SandboxSetClient_def setattr_def model_dump_def
      update_conv')

lemma create_sandboxclaim_body_fields:
  "py_getitem (create_sandboxclaim_body (SandboxClaimClient namespace' api') sandbox_claim)
       ''apiVersion''
     = Inr (PyTuple [PyStr ''agents.kruise.io/v1alpha1''])
   \<and> py_getitem (create_sandboxclaim_body (SandboxClaimClient namespace' api') sandbox_claim)
       ''kind''
     = Inr (PyTuple [PyStr ''SandboxClaim''])"
  by (simp add: create_sandboxclaim_body_def SandboxClaimClient_def setattr_def model_dump_def
      update_conv')

text \<open>
  Claim C4. The claim is that each of the three create helpers sets \<^verbatim>\<open>apiVersion\<close> to
  the string \<^verbatim>\<open>"agents.kruise.io/v1alpha1"\<close> and \<^verbatim>\<open>kind\<close> to the kind string. On a
  model with no field set, \<^verbatim>\<open>create_sandboxset\<close> and \<^verbatim>\<open>create_sandboxclaim\<close> send a
  body in which both are tuples of one string; \<^verbatim>\<open>create_sandbox\<close> sends the strings.
\<close>

theorem create_sandboxset_sends_tuples:
  "create_sandboxset (SandboxSetClient ''default'' recording_api) [] =
     Inr (PyDict [(''namespace'', PyStr ''default''),
                  (''body'', PyDict
                     [(''apiVersion'', PyTuple [PyStr ''agents.kruise.io/v1alpha1'']),
                      (''kind'', PyTuple [PyStr ''SandboxSet''])])])
   \<and> create_sandboxclaim (SandboxClaimClient ''default'' recording_api) [] =
     Inr (PyDict [(''namespace'', PyStr ''default''),
                  (''body'', PyDict
                     [(''apiVersion'', PyTuple [PyStr ''agents.kruise.io/v1alpha1'']),
                      (''kind'', PyTuple [PyStr ''SandboxClaim''])])])
   \<and> create_sandbox (SandboxClient ''default'' recording_api) [] =
     Inr (PyDict [(''namespace'', PyStr ''default''),
                  (''body'', PyDict
                     [(''apiVersion'', PyStr ''agents.kruise.io/v1alpha1''),
                      (''kind'', PyStr ''Sandbox'')])])"
  by (simp add: create_sandboxset_def create_sandboxset_body_def SandboxSetClient_def
      create_sandboxclaim_def create_sandboxclaim_body_def SandboxClaimClient_def
      create_sandbox_def create_sandbox_body_def SandboxClient_def
      create_call_def setattr_def model_dump_def recording_api_def)

end
